theory Spec2Isabelle
  imports Complex_Main "HOL-Library.Multiset"
begin

section \<open>Catalog data model\<close>

text \<open>
  The catalog is the constant \<open>CATEGORIES = loadCatalog()\<close>. The loader, \<open>utils/catalog\<close>,
  is not among the sources modelled here, so the catalog is a parameter of every function
  that reads it. An item
  is \<open>{slug, label, iconUrl}\<close>, a category is \<open>{key, label, items}\<close>. The \<open>items\<close> of a
  category are a JavaScript array, that is a reference into the store of arrays; the
  category's display text is the field \<open>clabel\<close> here, because a record field name is
  global and \<open>label\<close> is taken by the item.
\<close>

record item =
  slug :: string
  label :: string
  iconUrl :: "string option"

type_synonym ref = nat

record category =
  key :: string
  clabel :: string
  items :: ref

section \<open>Navigation: the App component\<close>

text \<open>
  \<open>App\<close> holds two pieces of state, \<open>showSplash\<close> (initially true) and \<open>screen\<close>
  (initially \<open>"home"\<close>; either \<open>"home"\<close> or a category key). The nested conditional in its
  JSX decides which of \<open>Splash\<close>, \<open>Home\<close> and \<open>Category\<close> (with \<open>categoryKey = screen\<close>) is
  rendered: the navigation state.
\<close>

record app =
  showSplash :: bool
  screen :: string

datatype navigation = AtSplash | AtHome | AtCategory string

definition App_initial :: app where
  "App_initial = \<lparr>showSplash = True, screen = ''home''\<rparr>"

definition App :: "app \<Rightarrow> navigation" where
  "App a = (if showSplash a then AtSplash
            else if screen a = ''home'' then AtHome
            else AtCategory (screen a))"

text \<open>The three callbacks that \<open>App\<close> hands to its children.\<close>

definition onDone :: "app \<Rightarrow> app" where
  "onDone a = a\<lparr>showSplash := False\<rparr>"

definition onOpenCategory :: "string \<Rightarrow> app \<Rightarrow> app" where
  "onOpenCategory k a = a\<lparr>screen := k\<rparr>"

definition onBack :: "app \<Rightarrow> app" where
  "onBack a = a\<lparr>screen := ''home''\<rparr>"

text \<open>
  \<open>Home\<close> renders one button per category of the catalog; the button of category \<open>c\<close>
  calls \<open>onOpenCategory(c.key)\<close>. These are the keys the user can select.
\<close>

definition Home_offers :: "category list \<Rightarrow> string list" where
  "Home_offers CATEGORIES = map key CATEGORIES"


section \<open>The JavaScript conversions used by the source\<close>

text \<open>
  \<open>getSpeakText\<close> and the sort of the numbers category call \<open>Number(slug)\<close> on a string,
  \<open>String(n)\<close> on the resulting Number and read \<open>words[n]\<close>. These are the language's
  \<open>StringToNumber\<close>, \<open>Number::toString\<close> and property lookup on an array. They are modelled
  on exact decimals: a finite Number is \<open>Finite neg ds n\<close>, the value
  \<open>0.d\<^sub>1d\<^sub>2\<dots>d\<^sub>k \<times> 10\<^sup>n\<close> (negated when \<open>neg\<close>) with \<open>ds = [d\<^sub>1, \<dots>, d\<^sub>k]\<close> its significant
  digits, neither starting nor ending with \<open>0\<close> (zero is \<open>ds = []\<close>). These \<open>k\<close>, \<open>n\<close> and
  digits are the ones \<open>Number::toString\<close> is specified with. The rounding of a literal to a
  binary64 double is not modelled: the model is the language's behaviour for literals of at
  most 15 significant digits and a decimal exponent of magnitude below 300, which a double
  holds and prints back unchanged. Strings are ASCII.
\<close>

datatype jsnum = NaN | Infinity bool | Finite bool "nat list" int

definition is_ws :: "char \<Rightarrow> bool" where
  "is_ws c = (c \<in> set [CHR 0x09, CHR 0x0A, CHR 0x0B, CHR 0x0C, CHR 0x0D, CHR 0x20])"

definition trim :: "string \<Rightarrow> string" where
  "trim s = rev (dropWhile is_ws (rev (dropWhile is_ws s)))"

definition is_digit :: "char \<Rightarrow> bool" where
  "is_digit c = (c \<in> set ''0123456789'')"

definition digit_val :: "char \<Rightarrow> nat" where
  "digit_val c = of_char c - 48"

definition digit_char :: "nat \<Rightarrow> char" where
  "digit_char d = ''0123456789'' ! d"

text \<open>The value of a hexadecimal digit, \<open>None\<close> for any other character.\<close>

definition hex_val :: "char \<Rightarrow> nat option" where
  "hex_val c =
     (if is_digit c then Some (digit_val c)
      else if c \<in> set ''abcdef'' then Some (of_char c - 87)
      else if c \<in> set ''ABCDEF'' then Some (of_char c - 55)
      else None)"

definition radix_value :: "nat \<Rightarrow> string \<Rightarrow> nat option" where
  "radix_value b s =
     (if s \<noteq> [] \<and> (\<forall>c \<in> set s. case hex_val c of None \<Rightarrow> False | Some d \<Rightarrow> d < b)
      then Some (foldl (\<lambda>acc c. acc * b + the (hex_val c)) 0 s)
      else None)"

function digits_of :: "nat \<Rightarrow> nat list" where
  "digits_of n = (if n < 10 then [n] else digits_of (n div 10) @ [n mod 10])"
  by pat_completeness auto
termination
  by (relation "measure id") auto

declare digits_of.simps [simp del]

definition nat_of_digits :: "string \<Rightarrow> nat" where
  "nat_of_digits s = foldl (\<lambda>acc c. acc * 10 + digit_val c) 0 s"

text \<open>
  \<open>mk_finite neg ds e\<close> is the Number with sign \<open>neg\<close> and magnitude (the integer written
  \<open>ds\<close>) \<open>\<times> 10\<^sup>e\<close>, brought to the form above.
\<close>

definition mk_finite :: "bool \<Rightarrow> nat list \<Rightarrow> int \<Rightarrow> jsnum" where
  "mk_finite neg ds e =
     (let ds1 = dropWhile (\<lambda>d. d = 0) ds;
          ds2 = rev (dropWhile (\<lambda>d. d = 0) (rev ds1))
      in if ds2 = [] then Finite neg [] 0 else Finite neg ds2 (int (length ds1) + e))"

text \<open>
  \<open>ExponentPart\<close>, optional: nothing, or \<open>e\<close>/\<open>E\<close>, an optional sign and at least one digit,
  up to the end of the string.
\<close>

definition exponent_part :: "string \<Rightarrow> int option" where
  "exponent_part s =
     (case s of
        [] \<Rightarrow> Some 0
      | c # r \<Rightarrow>
          if c = CHR ''e'' \<or> c = CHR ''E'' then
            (let (neg, ds) = (case r of
                                [] \<Rightarrow> (False, [])
                              | x # r' \<Rightarrow> if x = CHR ''-'' then (True, r')
                                         else if x = CHR ''+'' then (False, r')
                                         else (False, r))
             in if ds \<noteq> [] \<and> (\<forall>d \<in> set ds. is_digit d)
                then Some (if neg then - int (nat_of_digits ds) else int (nat_of_digits ds))
                else None)
          else None)"

text \<open>\<open>StrUnsignedDecimalLiteral\<close>, after the sign has been read.\<close>

definition unsigned_decimal :: "bool \<Rightarrow> string \<Rightarrow> jsnum" where
  "unsigned_decimal neg s =
     (if s = ''Infinity'' then Infinity neg
      else
        let ip = takeWhile is_digit s;
            r1 = dropWhile is_digit s;
            dot = (r1 \<noteq> [] \<and> hd r1 = CHR ''.'');
            fp = (if dot then takeWhile is_digit (tl r1) else []);
            r2 = (if dot then dropWhile is_digit (tl r1) else r1)
        in if ip = [] \<and> fp = [] then NaN
           else case exponent_part r2 of
                  None \<Rightarrow> NaN
                | Some x \<Rightarrow> mk_finite neg (map digit_val (ip @ fp)) (x - int (length fp)))"

text \<open>\<open>Number(s)\<close> for a string \<open>s\<close>.\<close>

definition Number_js :: "string \<Rightarrow> jsnum" where
  "Number_js s =
     (let t = trim s in
      if t = [] then Finite False [] 0
      else if take 2 t \<in> set [''0x'', ''0X''] then
        (case radix_value 16 (drop 2 t) of None \<Rightarrow> NaN | Some v \<Rightarrow> mk_finite False (digits_of v) 0)
      else if take 2 t \<in> set [''0o'', ''0O''] then
        (case radix_value 8 (drop 2 t) of None \<Rightarrow> NaN | Some v \<Rightarrow> mk_finite False (digits_of v) 0)
      else if take 2 t \<in> set [''0b'', ''0B''] then
        (case radix_value 2 (drop 2 t) of None \<Rightarrow> NaN | Some v \<Rightarrow> mk_finite False (digits_of v) 0)
      else if hd t = CHR ''-'' then unsigned_decimal True (tl t)
      else if hd t = CHR ''+'' then unsigned_decimal False (tl t)
      else unsigned_decimal False t)"

text \<open>
  \<open>String(n)\<close> for a Number \<open>n\<close>, by the cases of \<open>Number::toString\<close>: with \<open>k\<close> the number of
  significant digits, plain digits and zeros when \<open>k \<le> n \<le> 21\<close>, a decimal point inside
  the digits when \<open>0 < n < k\<close> (and \<open>n \<le> 21\<close>), \<open>0.\<close> and zeros first when \<open>-6 < n \<le> 0\<close>,
  exponent notation otherwise.
\<close>

definition show_digits :: "nat list \<Rightarrow> string" where
  "show_digits ds = map digit_char ds"

definition String_js :: "jsnum \<Rightarrow> string" where
  "String_js x =
     (case x of
        NaN \<Rightarrow> ''NaN''
      | Infinity neg \<Rightarrow> (if neg then ''-Infinity'' else ''Infinity'')
      | Finite neg ds n \<Rightarrow>
          if ds = [] then ''0''
          else
            (if neg then ''-'' else []) @
            (let k = int (length ds) in
             if k \<le> n \<and> n \<le> 21 then show_digits ds @ replicate (nat (n - k)) (CHR ''0'')
             else if 0 < n \<and> n \<le> 21 then
               show_digits (take (nat n) ds) @ ''.'' @ show_digits (drop (nat n) ds)
             else if - 6 < n \<and> n \<le> 0 then
               ''0.'' @ replicate (nat (- n)) (CHR ''0'') @ show_digits ds
             else
               show_digits [hd ds] @ (if k = 1 then [] else ''.'' @ show_digits (tl ds)) @
               ''e'' @ (if 0 \<le> n - 1 then ''+'' else ''-'') @
               show_digits (digits_of (nat \<bar>n - 1\<bar>))))"

text \<open>
  An array is an object whose element \<open>i\<close> is the property named by the decimal string of
  \<open>i\<close>. \<open>xs[n]\<close> with a Number \<open>n\<close> converts \<open>n\<close> to its string and looks that property up;
  a name that is no index of the array gives \<open>undefined\<close>, here \<open>None\<close>.
\<close>

definition array_get :: "'a list \<Rightarrow> jsnum \<Rightarrow> 'a option" where
  "array_get xs n =
     map_of (zip (map (\<lambda>i. String_js (mk_finite False (digits_of i) 0)) [0..<length xs]) xs)
       (String_js n)"

section \<open>Word-to-speech text: \<open>getSpeakText\<close>\<close>

definition words :: "string list" where
  "words = [[], ''one'', ''two'', ''three'', ''four'', ''five'', ''six'', ''seven'', ''eight'',
            ''nine'', ''ten'', ''eleven'', ''twelve'', ''thirteen'', ''fourteen'', ''fifteen'',
            ''sixteen'', ''seventeen'', ''eighteen'', ''nineteen'', ''twenty'']"

text \<open>
  The argument \<open>word\<close> is an item's slug, a string, so \<open>String(word)\<close> is \<open>word\<close>. In
  \<open>words[n] || String(n)\<close> the left operand is falsy when it is \<open>undefined\<close> or the empty
  string \<open>words[0]\<close>.
\<close>

definition getSpeakText :: "string \<Rightarrow> string \<Rightarrow> string" where
  "getSpeakText categoryKey word =
     (if categoryKey = ''letters'' then word
      else if categoryKey = ''numbers'' then
        (let n = Number_js word in
         case array_get words n of
           None \<Rightarrow> String_js n
         | Some w \<Rightarrow> if w = [] then String_js n else w)
      else word)"






section \<open>The Category screen\<close>

subsection \<open>Arrays in the store, and \<open>Array.prototype.sort\<close>\<close>

text \<open>
  Arrays are mutable objects: \<open>cells h r\<close> is the content of the array at reference \<open>r\<close>,
  and references below \<open>next_ref h\<close> are the allocated ones. \<open>[...arr]\<close> allocates a new
  array with the elements of \<open>arr\<close>; \<open>arr.sort(cmp)\<close> sorts \<open>arr\<close> in place and returns
  \<open>arr\<close>.
\<close>

record heap =
  cells :: "ref \<Rightarrow> item list"
  next_ref :: ref

definition spread :: "ref \<Rightarrow> heap \<Rightarrow> ref \<times> heap" where
  "spread r h =
     (next_ref h, h\<lparr>cells := (cells h)(next_ref h := cells h r), next_ref := Suc (next_ref h)\<rparr>)"

text \<open>
  The language fixes the result of \<open>sort\<close> for a consistent comparator: the elements in
  ascending order of the comparator, elements that compare equal in their original order.
  Insertion from the right computes it. \<open>cmp x y\<close> stands for the sign the sort reads
  from the comparator's result (a \<open>NaN\<close> result is read as \<open>0\<close>). For a comparator that is
  not consistent the language leaves the order to the engine.
\<close>

fun insert_sorted :: "('a \<Rightarrow> 'a \<Rightarrow> int) \<Rightarrow> 'a \<Rightarrow> 'a list \<Rightarrow> 'a list" where
  "insert_sorted cmp x [] = [x]"
| "insert_sorted cmp x (y # ys) =
     (if cmp x y \<le> 0 then x # y # ys else y # insert_sorted cmp x ys)"

definition js_sort :: "('a \<Rightarrow> 'a \<Rightarrow> int) \<Rightarrow> 'a list \<Rightarrow> 'a list" where
  "js_sort cmp xs = foldr (insert_sorted cmp) xs []"

definition sort_array :: "(item \<Rightarrow> item \<Rightarrow> int) \<Rightarrow> ref \<Rightarrow> heap \<Rightarrow> ref \<times> heap" where
  "sort_array cmp r h = (r, h\<lparr>cells := (cells h)(r := js_sort cmp (cells h r))\<rparr>)"

text \<open>
  The mathematical value of a finite Number, and the sign of \<open>a - b\<close> as the sort reads it:
  \<open>0\<close> when the difference is \<open>NaN\<close> (an operand is \<open>NaN\<close>, or both are the same infinity).
\<close>

definition finite_value :: "bool \<Rightarrow> nat list \<Rightarrow> int \<Rightarrow> rat" where
  "finite_value neg ds n =
     (let m = of_nat (foldl (\<lambda>acc d. acc * 10 + d) 0 ds);
          e = n - int (length ds);
          v = (if 0 \<le> e then m * 10 ^ nat e else m / 10 ^ nat (- e))
      in if neg then - v else v)"



fun sub_sign :: "jsnum \<Rightarrow> jsnum \<Rightarrow> int" where
  "sub_sign NaN b = 0"
| "sub_sign a NaN = 0"
| "sub_sign (Infinity s) (Infinity t) = (if s = t then 0 else if s then - 1 else 1)"
| "sub_sign (Infinity s) (Finite t es m) = (if s then - 1 else 1)"
| "sub_sign (Finite s ds n) (Infinity t) = (if t then 1 else - 1)"
| "sub_sign (Finite s ds n) (Finite t es m) =
     (if finite_value s ds n < finite_value t es m then - 1
      else if finite_value t es m < finite_value s ds n then 1 else 0)"

subsection \<open>The component\<close>

text \<open>
  Reading a property of \<open>undefined\<close> throws a \<open>TypeError\<close>. \<open>CATEGORIES.find\<close> gives
  \<open>undefined\<close> when no category has the key, so the category is an option and every read
  of one of its fields goes through \<open>read\<close>.
\<close>

datatype js_error = TypeError

definition read :: "('a \<Rightarrow> 'b) \<Rightarrow> 'a option \<Rightarrow> js_error + 'b" where
  "read field obj = (case obj of None \<Rightarrow> Inl TypeError | Some x \<Rightarrow> Inr (field x))"

definition and_then :: "js_error + 'a \<Rightarrow> ('a \<Rightarrow> js_error + 'b) \<Rightarrow> js_error + 'b" where
  "and_then r f = (case r of Inl e \<Rightarrow> Inl e | Inr x \<Rightarrow> f x)"

text \<open>
  The \<open>items\<close> of the screen: a copy of \<open>category.items\<close>, sorted in place by the order of
  the category. \<open>localeCompare\<close> is \<open>String.prototype.localeCompare\<close>, the collation of the
  host's locale, a parameter.
\<close>

definition Category_items ::
  "(string \<Rightarrow> string \<Rightarrow> int) \<Rightarrow> category option \<Rightarrow> heap \<Rightarrow> js_error + (ref \<times> heap)" where
  "Category_items localeCompare category h =
     and_then (read items category) (\<lambda>arr.
       let (base, h1) = spread arr h in
       and_then (read key category) (\<lambda>k.
         if k = ''numbers'' then
           Inr (sort_array (\<lambda>a b. sub_sign (Number_js (slug a)) (Number_js (slug b))) base h1)
         else if k = ''letters'' then
           Inr (sort_array (\<lambda>a b. localeCompare (slug a) (slug b)) base h1)
         else
           Inr (sort_array (\<lambda>a b. localeCompare (label a) (label b)) base h1)))"

text \<open>
  What the screen shows: the category's label, the speaking indicator, and one card per
  item, in the order of \<open>items\<close>, with the React key \<open>item.slug\<close>, the item's label and a
  play button that speaks \<open>getSpeakText(category.key, item.slug)\<close>. \<open>null\<close> is \<open>None\<close>.
  The hook \<open>useSpeech\<close> is called before the test of \<open>category\<close>; of its state the screen
  reads \<open>isSpeaking\<close> only.
\<close>

record card =
  card_key :: string
  word :: string
  play :: string

record category_screen =
  title :: string
  playing :: bool
  cards :: "card list"

definition Category ::
  "category list \<Rightarrow> (string \<Rightarrow> string \<Rightarrow> int) \<Rightarrow> bool \<Rightarrow> string \<Rightarrow> heap
     \<Rightarrow> js_error + (category_screen option \<times> heap)" where
  "Category CATEGORIES localeCompare isSpeaking categoryKey h =
     (let category = find (\<lambda>c. key c = categoryKey) CATEGORIES in
      if category = None then Inr (None, h)
      else
        and_then (Category_items localeCompare category h) (\<lambda>(its, h').
          and_then (read key category) (\<lambda>k.
            and_then (read clabel category) (\<lambda>l.
              Inr (Some \<lparr>title = l, playing = isSpeaking,
                         cards = map (\<lambda>item. \<lparr>card_key = slug item, word = label item,
                                             play = getSpeakText k (slug item)\<rparr>)
                                   (cells h' its)\<rparr>,
                   h')))))"


section \<open>The speech controller: \<open>useSpeech\<close>\<close>

subsection \<open>Voices and the choice of the preferred voice\<close>

record voice =
  name :: string
  lang :: string

text \<open>
  \<open>/p/i.test(s)\<close> for a pattern \<open>p\<close> of literal ASCII characters: \<open>p\<close> occurs somewhere in
  \<open>s\<close>, letters compared without case. The pattern \<open>/en(-| )US|GB|AU/i\<close> is an alternation
  of \<open>en(-| )US\<close>, \<open>GB\<close> and \<open>AU\<close>: alternation binds weaker than concatenation.
\<close>

definition to_lower :: "char \<Rightarrow> char" where
  "to_lower c = (let n = of_char c :: nat in if 65 \<le> n \<and> n \<le> 90 then char_of (n + 32) else c)"

fun starts_with_ci :: "string \<Rightarrow> string \<Rightarrow> bool" where
  "starts_with_ci [] s = True"
| "starts_with_ci (p # ps) [] = False"
| "starts_with_ci (p # ps) (c # cs) =
     (if to_lower p = to_lower c then starts_with_ci ps cs else False)"

fun contains_ci :: "string \<Rightarrow> string \<Rightarrow> bool" where
  "contains_ci p [] = (p = [])"
| "contains_ci p (c # s) = (if starts_with_ci p (c # s) then True else contains_ci p s)"

definition test_Google_US_English :: "string \<Rightarrow> bool" where
  "test_Google_US_English s = contains_ci ''Google US English'' s"

definition test_en_US :: "string \<Rightarrow> bool" where
  "test_en_US s = contains_ci ''en-US'' s"

definition test_en_US_GB_AU :: "string \<Rightarrow> bool" where
  "test_en_US_GB_AU s =
     (contains_ci ''en-US'' s \<or> contains_ci ''en US'' s \<or> contains_ci ''GB'' s \<or> contains_ci ''AU'' s)"

text \<open>
  The value \<open>chooseVoice\<close> stores, from the list \<open>all\<close> of the engine's voices:
  \<open>exact || fallback || all[0] || null\<close>. A voice object is truthy, \<open>find\<close> without a match
  and \<open>all[0]\<close> of an empty list are \<open>undefined\<close>.
\<close>

definition preferred :: "voice list \<Rightarrow> voice option" where
  "preferred all =
     (let exact = find (\<lambda>v. test_Google_US_English (name v) \<and> test_en_US (lang v)) all;
          fallback = find (\<lambda>v. test_en_US_GB_AU (lang v)) all
      in case exact of
           Some v \<Rightarrow> Some v
         | None \<Rightarrow>
             (case fallback of
                Some v \<Rightarrow> Some v
              | None \<Rightarrow> (case all of [] \<Rightarrow> None | v # rest \<Rightarrow> Some v)))"

subsection \<open>The engine\<close>

text \<open>
  \<open>window.speechSynthesis\<close> is the browser's: a capability over engine states \<open>'e\<close>, with
  the operations the hook calls. A call returns or throws, and leaves the engine in a new
  state either way. \<open>getVoices\<close> may be missing (the source calls it with \<open>?.\<close>).
  \<open>SpeechSynthesisUtterance\<close> tells whether that constructor is defined.
\<close>

datatype 'a completion = Returns 'a | Throws 'a

fun state_of :: "'a completion \<Rightarrow> 'a" where
  "state_of (Returns x) = x"
| "state_of (Throws x) = x"

record utterance =
  utterance_text :: string
  utterance_lang :: string
  rate :: rat
  pitch :: rat
  volume :: rat
  utterance_voice :: "voice option"

record 'e web_speech =
  cancel :: "'e \<Rightarrow> 'e completion"
  submit :: "utterance \<Rightarrow> 'e \<Rightarrow> 'e completion"
  getVoices :: "('e \<Rightarrow> voice list) option"
  speaking :: "'e \<Rightarrow> bool"
  SpeechSynthesisUtterance :: bool

subsection \<open>The hook's state and its callbacks\<close>

text \<open>
  \<open>synthRef\<close> is \<open>window.speechSynthesis\<close> (here: the engine's current state) or \<open>null\<close>; it
  is never reassigned. \<open>onvoiceschanged\<close> tells whether the engine's property of that name
  is \<open>chooseVoice\<close> (otherwise it is unset or \<open>null\<close>). \<open>interval\<close> is the timer the effect
  created, with its period in milliseconds, until it is cleared.
\<close>

record 'e hook =
  synthRef :: "'e option"
  isSpeaking :: bool
  preferredVoiceRef :: "voice option"
  onvoiceschanged :: bool
  interval :: "nat option"

definition useSpeech_initial :: "'e option \<Rightarrow> 'e hook" where
  "useSpeech_initial synth =
     \<lparr>synthRef = synth, isSpeaking = False, preferredVoiceRef = None,
      onvoiceschanged = False, interval = None\<rparr>"

definition chooseVoice :: "'e web_speech \<Rightarrow> 'e \<Rightarrow> 'e hook \<Rightarrow> 'e hook" where
  "chooseVoice api e s =
     (let all = (case getVoices api of None \<Rightarrow> [] | Some get \<Rightarrow> get e)
      in s\<lparr>preferredVoiceRef := preferred all\<rparr>)"

text \<open>The callback of the interval timer.\<close>

definition poll :: "'e web_speech \<Rightarrow> 'e hook \<Rightarrow> 'e hook" where
  "poll api s =
     (case synthRef s of
        None \<Rightarrow> s
      | Some e \<Rightarrow> if \<not> speaking api e then s\<lparr>isSpeaking := False\<rparr> else s)"

text \<open>The effect that runs when the component mounts, and the cleanup it returns.\<close>

definition effect :: "'e web_speech \<Rightarrow> 'e hook \<Rightarrow> 'e hook" where
  "effect api s =
     (case synthRef s of
        None \<Rightarrow> s
      | Some e \<Rightarrow>
          let s1 = chooseVoice api e s;
              s2 = s1\<lparr>onvoiceschanged := True\<rparr>
          in s2\<lparr>interval := Some 200\<rparr>)"

definition cleanup :: "'e hook \<Rightarrow> 'e hook" where
  "cleanup s =
     (let s1 = s\<lparr>interval := None\<rparr>
      in if synthRef s1 \<noteq> None then s1\<lparr>onvoiceschanged := False\<rparr> else s1)"

text \<open>
  Unmounting runs the cleanup when the effect returned one: the effect returns early,
  without a cleanup, when \<open>synthRef.current\<close> is \<open>null\<close>.
\<close>

definition unmount :: "'e hook \<Rightarrow> 'e hook" where
  "unmount s = (case synthRef s of None \<Rightarrow> s | Some e \<Rightarrow> cleanup s)"

text \<open>
  \<open>speak\<close>: the body of the \<open>try\<close> block, then the function with its empty \<open>catch\<close>. The
  handlers \<open>utter.onstart\<close> and \<open>utter.onend\<close> are the same two closures for every
  utterance, \<open>setIsSpeaking(true)\<close> and \<open>setIsSpeaking(false)\<close>; they are the events
  \<open>UtteranceStart\<close> and \<open>UtteranceEnd\<close> below. No handler is set for an error event.
\<close>

definition new_utterance :: "string \<Rightarrow> voice option \<Rightarrow> utterance" where
  "new_utterance text pv =
     \<lparr>utterance_text = text, utterance_lang = ''en-US'', rate = 85 / 100, pitch = 105 / 100,
      volume = 1, utterance_voice = pv\<rparr>"

definition speak_try :: "'e web_speech \<Rightarrow> 'e hook \<Rightarrow> string \<Rightarrow> 'e hook completion" where
  "speak_try api s text =
     (case synthRef s of
        None \<Rightarrow> Returns s
      | Some e \<Rightarrow>
          (case cancel api e of
             Throws e1 \<Rightarrow> Throws (s\<lparr>synthRef := Some e1\<rparr>)
           | Returns e1 \<Rightarrow>
               if \<not> SpeechSynthesisUtterance api then Throws (s\<lparr>synthRef := Some e1\<rparr>)
               else
                 (case submit api (new_utterance text (preferredVoiceRef s)) e1 of
                    Throws e2 \<Rightarrow> Throws (s\<lparr>synthRef := Some e2\<rparr>)
                  | Returns e2 \<Rightarrow> Returns (s\<lparr>synthRef := Some e2\<rparr>))))"

definition speak :: "'e web_speech \<Rightarrow> 'e hook \<Rightarrow> string \<Rightarrow> 'e hook completion" where
  "speak api s text =
     (case speak_try api s text of Returns s' \<Rightarrow> Returns s' | Throws s' \<Rightarrow> Returns s')"

subsection \<open>Events\<close>

text \<open>
  What can happen to a mounted hook: a call of \<open>speak\<close>; the engine announcing a change of
  its voices, which calls the \<open>onvoiceschanged\<close> property when it is set; the interval
  timer firing, when it exists; the engine dispatching the start, end or error event of an
  utterance; the engine changing state on its own (voices loaded, speech begun or over);
  the component unmounting.
\<close>

datatype 'e event =
    Speak string
  | VoicesChanged
  | Tick
  | UtteranceStart
  | UtteranceEnd
  | UtteranceError
  | EngineChange 'e
  | Unmount

fun step :: "'e web_speech \<Rightarrow> 'e event \<Rightarrow> 'e hook \<Rightarrow> 'e hook" where
  "step api (Speak text) s = state_of (speak api s text)"
| "step api VoicesChanged s =
     (case synthRef s of
        None \<Rightarrow> s
      | Some e \<Rightarrow> if onvoiceschanged s then chooseVoice api e s else s)"
| "step api Tick s = (if interval s \<noteq> None then poll api s else s)"
| "step api UtteranceStart s = s\<lparr>isSpeaking := True\<rparr>"
| "step api UtteranceEnd s = s\<lparr>isSpeaking := False\<rparr>"
| "step api UtteranceError s = s"
| "step api (EngineChange e') s =
     (case synthRef s of None \<Rightarrow> s | Some e \<Rightarrow> s\<lparr>synthRef := Some e'\<rparr>)"
| "step api Unmount s = unmount s"

definition run :: "'e web_speech \<Rightarrow> 'e event list \<Rightarrow> 'e hook \<Rightarrow> 'e hook" where
  "run api evs s = foldl (\<lambda>s ev. step api ev s) s evs"

text \<open>
  A hook whose timer and voices handler cannot run: there is no engine, or the timer is
  cleared and the handler detached. The events that come from the engine or the timer.
\<close>

definition quiet :: "'e hook \<Rightarrow> bool" where
  "quiet s = (synthRef s = None \<or> (interval s = None \<and> \<not> onvoiceschanged s))"

fun engine_event :: "'e event \<Rightarrow> bool" where
  "engine_event Tick = True"
| "engine_event VoicesChanged = True"
| "engine_event (EngineChange e) = True"
| "engine_event ev = False"

section \<open>The Splash screen and its timer\<close>

text \<open>
  \<open>Splash\<close> sets a timeout of 2200 ms for \<open>onDone\<close> in an effect and clears it in the
  effect's cleanup. The page holds the state of \<open>App\<close>, a clock in milliseconds, the pending
  timeouts (identifier and due time; their callback is \<open>onDone\<close>) and, while \<open>Splash\<close> is
  mounted, the identifier \<open>t\<close> its cleanup holds.
\<close>

record page =
  app_state :: app
  now :: nat
  timeouts :: "(nat \<times> nat) list"
  next_timer :: nat
  splash_timer :: "nat option"

definition setTimeout :: "nat \<Rightarrow> page \<Rightarrow> nat \<times> page" where
  "setTimeout delay p =
     (next_timer p,
      p\<lparr>timeouts := timeouts p @ [(next_timer p, now p + delay)],
        next_timer := Suc (next_timer p)\<rparr>)"

definition clearTimeout :: "nat \<Rightarrow> page \<Rightarrow> page" where
  "clearTimeout t p = p\<lparr>timeouts := filter (\<lambda>(i, due). i \<noteq> t) (timeouts p)\<rparr>"

definition Splash_effect :: "page \<Rightarrow> page" where
  "Splash_effect p = (let (t, p1) = setTimeout 2200 p in p1\<lparr>splash_timer := Some t\<rparr>)"

definition Splash_cleanup :: "page \<Rightarrow> page" where
  "Splash_cleanup p =
     (case splash_timer p of
        None \<Rightarrow> p
      | Some t \<Rightarrow> (clearTimeout t p)\<lparr>splash_timer := None\<rparr>)"

text \<open>
  After a change of \<open>App\<close>'s state React renders again; when \<open>Splash\<close> is no longer part of
  the output it is unmounted and its cleanup runs.
\<close>

definition render :: "page \<Rightarrow> page" where
  "render p = (if App (app_state p) = AtSplash then p else Splash_cleanup p)"

text \<open>
  A pending timeout fires once: it leaves the table, its callback \<open>onDone\<close> runs, and the
  page renders. \<open>advance d\<close> lets \<open>d\<close> milliseconds pass and fires what has become due and
  is still pending, in the order of registration.
\<close>

definition fire :: "nat \<Rightarrow> page \<Rightarrow> page" where
  "fire t p =
     (if t \<in> fst ` set (timeouts p)
      then render ((clearTimeout t p)\<lparr>app_state := onDone (app_state p)\<rparr>)
      else p)"

definition advance :: "nat \<Rightarrow> page \<Rightarrow> page" where
  "advance d p =
     (let p1 = p\<lparr>now := now p + d\<rparr>
      in foldl (\<lambda>q (t, due). if due \<le> now p1 then fire t q else q) p1 (timeouts p1))"

text \<open>
  User input reaches the handlers of what is rendered. \<open>Splash\<close> renders no element with a
  handler; \<open>Home\<close> renders a button per category of the catalog; \<open>Category\<close> renders a back
  button when it renders at all, that is when the catalog has its key.
\<close>

datatype user_event = SelectCategory string | Back

definition user :: "category list \<Rightarrow> user_event \<Rightarrow> page \<Rightarrow> page" where
  "user CATEGORIES ev p =
     (case App (app_state p) of
        AtSplash \<Rightarrow> p
      | AtHome \<Rightarrow>
          (case ev of
             SelectCategory k \<Rightarrow>
               if k \<in> set (Home_offers CATEGORIES)
               then p\<lparr>app_state := onOpenCategory k (app_state p)\<rparr> else p
           | Back \<Rightarrow> p)
      | AtCategory c \<Rightarrow>
          (case ev of
             SelectCategory k \<Rightarrow> p
           | Back \<Rightarrow>
               if c \<in> set (map key CATEGORIES)
               then p\<lparr>app_state := onBack (app_state p)\<rparr> else p))"

text \<open>The page when \<open>App\<close> has rendered for the first time and no effect has run yet.\<close>

definition page_initial :: page where
  "page_initial =
     \<lparr>app_state = App_initial, now = 0, timeouts = [], next_timer = 0, splash_timer = None\<rparr>"

section \<open>Example data\<close>

text \<open>
  A small catalog with its arrays in the store, and a comparison of strings by character
  code to stand for \<open>localeCompare\<close>, for evaluating the definitions on concrete inputs.
\<close>

definition example_numbers :: category where
  "example_numbers = \<lparr>key = ''numbers'', clabel = ''Numbers'', items = 0\<rparr>"

definition example_animals :: category where
  "example_animals = \<lparr>key = ''animals'', clabel = ''Animals'', items = 1\<rparr>"

definition example_catalog :: "category list" where
  "example_catalog = [example_numbers, example_animals]"

definition example_heap :: heap where
  "example_heap =
     \<lparr>cells = (\<lambda>r. if r = 0 then
                      [\<lparr>slug = ''10'', label = ''10'', iconUrl = None\<rparr>,
                       \<lparr>slug = ''9'', label = ''9'', iconUrl = None\<rparr>,
                       \<lparr>slug = ''2'', label = ''2'', iconUrl = None\<rparr>]
                    else if r = 1 then
                      [\<lparr>slug = ''polar-bear'', label = ''Polar Bear'', iconUrl = None\<rparr>,
                       \<lparr>slug = ''cat'', label = ''Cat'', iconUrl = None\<rparr>,
                       \<lparr>slug = ''dog'', label = ''Dog'', iconUrl = None\<rparr>]
                    else []),
      next_ref = 2\<rparr>"

fun codeunit_compare :: "string \<Rightarrow> string \<Rightarrow> int" where
  "codeunit_compare [] [] = 0"
| "codeunit_compare [] (b # bs) = - 1"
| "codeunit_compare (a # as) [] = 1"
| "codeunit_compare (a # as) (b # bs) =
     (if (of_char a :: nat) < of_char b then - 1
      else if (of_char b :: nat) < of_char a then 1
      else codeunit_compare as bs)"

text \<open>
  Engines to run the hook against. A simulated engine holds the utterances it has been
  handed, its voices and whether it is speaking. The conforming engine empties its queue
  on \<open>cancel\<close> and appends on \<open>speak\<close>; the rejecting engine throws from \<open>speak\<close>.
\<close>

record sim_engine =
  queue :: "utterance list"
  voices :: "voice list"
  busy :: bool

definition conforming_engine :: "sim_engine web_speech" where
  "conforming_engine =
     \<lparr>cancel = (\<lambda>e. Returns (e\<lparr>queue := [], busy := False\<rparr>)),
      submit = (\<lambda>u e. Returns (e\<lparr>queue := queue e @ [u]\<rparr>)),
      getVoices = Some voices,
      speaking = busy,
      SpeechSynthesisUtterance = True\<rparr>"

definition rejecting_engine :: "sim_engine web_speech" where
  "rejecting_engine = conforming_engine\<lparr>submit := (\<lambda>u e. Throws e)\<rparr>"

definition silent :: sim_engine where
  "silent = \<lparr>queue = [], voices = [], busy = False\<rparr>"

definition voice_welsh :: voice where
  "voice_welsh = \<lparr>name = ''Nia (Welsh)'', lang = ''cy-GB''\<rparr>"

definition voice_english :: voice where
  "voice_english = \<lparr>name = ''Aria (English)'', lang = ''en-US''\<rparr>"

definition voice_french :: voice where
  "voice_french = \<lparr>name = ''Thomas'', lang = ''fr-FR''\<rparr>"

definition voice_google :: voice where
  "voice_google = \<lparr>name = ''Google US English'', lang = ''en-US''\<rparr>"

section \<open>Properties of \<open>getSpeakText\<close>\<close>























section \<open>Properties of navigation and of the Category screen\<close>

lemma Category_unknown:
  "categoryKey \<notin> set (map key CATEGORIES) \<Longrightarrow>
     Category CATEGORIES localeCompare sp categoryKey h = Inr (None, h)"
proof -
  assume "categoryKey \<notin> set (map key CATEGORIES)"
  then have "find (\<lambda>c. key c = categoryKey) CATEGORIES = None"
    by (auto simp: find_None_iff)
  then show ?thesis by (simp add: Category_def)
qed

lemma Category_items_Some:
  "\<exists>r. Category_items localeCompare (Some c) h = Inr r"
  by (simp add: Category_items_def and_then_def read_def spread_def split: prod.splits)

lemma Category_never_fails:
  "\<exists>r. Category CATEGORIES localeCompare sp categoryKey h = Inr r"
proof (cases "find (\<lambda>c. key c = categoryKey) CATEGORIES")
  case None
  then show ?thesis by (simp add: Category_def)
next
  case (Some c)
  obtain r where "Category_items localeCompare (Some c) h = Inr r"
    using Category_items_Some by blast
  then show ?thesis
    by (cases r) (simp add: Category_def Some and_then_def read_def)
qed

(* sorting *)

















text \<open>
  C10. For a \<open>categoryKey\<close> that matches no category of the catalog the Category screen
  renders nothing: it returns \<open>null\<close> and leaves the store as it was. For every key,
  known or not, rendering returns a result and no \<open>TypeError\<close>: the test of \<open>category\<close> comes
  before every read of one of its fields.
\<close>

theorem Category_unknown_key_renders_null:
  "(categoryKey \<notin> set (map key CATEGORIES) \<longrightarrow>
      Category CATEGORIES localeCompare sp categoryKey h = Inr (None, h)) \<and>
   (\<exists>r. Category CATEGORIES localeCompare sp categoryKey h = Inr r)"
  using Category_unknown [of categoryKey CATEGORIES localeCompare sp h]
    Category_never_fails [of CATEGORIES localeCompare sp categoryKey h]
  by blast

theorem Category_unknown_key_renders_null_witness:
  "''unicorns'' \<notin> set (map key example_catalog) \<and>
   Category example_catalog codeunit_compare False ''unicorns'' example_heap = Inr (None, example_heap)"
proof -
  have "''unicorns'' \<notin> set (map key example_catalog)"
    by (simp add: example_catalog_def example_numbers_def example_animals_def)
  then show ?thesis
    using Category_unknown_key_renders_null
      [of "''unicorns''" example_catalog codeunit_compare False example_heap]
    by blast
qed

text \<open>
  C3, as amended. \<open>Home\<close> offers exactly the keys of the catalog's categories. The handler
  \<open>onOpenCategory\<close> of \<open>App\<close> does not validate its argument: from \<open>Home\<close>, selecting a key
  \<open>k\<close> makes the navigation state \<open>Category(k)\<close> for every \<open>k\<close> other than \<open>"home"\<close>, whether
  the catalog has it or not, and leaves it at \<open>Home\<close> for \<open>k = "home"\<close>. For a key that
  matches no category the Category screen then renders nothing.
\<close>

theorem onOpenCategory_unvalidated:
  "set (Home_offers CATEGORIES) = key ` set CATEGORIES \<and>
   (App a = AtHome \<longrightarrow>
      App (onOpenCategory k a) = (if k = ''home'' then AtHome else AtCategory k)) \<and>
   (k \<notin> set (map key CATEGORIES) \<longrightarrow>
      Category CATEGORIES localeCompare sp k h = Inr (None, h))"
proof -
  have "App a = AtHome \<Longrightarrow> App (onOpenCategory k a) = (if k = ''home'' then AtHome else AtCategory k)"
    by (auto simp: App_def onOpenCategory_def split: if_splits)
  then show ?thesis
    using Category_unknown [of k CATEGORIES localeCompare sp h]
    by (auto simp: Home_offers_def)
qed

theorem onOpenCategory_unvalidated_witness:
  "App \<lparr>showSplash = False, screen = ''home''\<rparr> = AtHome \<and>
   App (onOpenCategory ''numbers'' \<lparr>showSplash = False, screen = ''home''\<rparr>) = AtCategory ''numbers'' \<and>
   ''unicorns'' \<notin> set (map key example_catalog) \<and>
   Category example_catalog codeunit_compare False ''unicorns'' example_heap = Inr (None, example_heap)"
proof -
  have h: "App \<lparr>showSplash = False, screen = ''home''\<rparr> = AtHome"
    by (simp add: App_def)
  have u: "''unicorns'' \<notin> set (map key example_catalog)"
    by (simp add: example_catalog_def example_numbers_def example_animals_def)
  have n: "''numbers'' \<noteq> ''home''" by simp
  show ?thesis
    using h u n
      onOpenCategory_unvalidated
        [of example_catalog "\<lparr>showSplash = False, screen = ''home''\<rparr>" "''numbers''"]
      onOpenCategory_unvalidated
        [of example_catalog _ "''unicorns''" codeunit_compare False example_heap]
    by (simp only: if_False) blast
qed

text \<open>
  C3 as stated fails: selecting a key that no category has, while the navigation state is
  \<open>Home\<close>, is not a no-op. The state becomes \<open>Category("unicorns")\<close>.
\<close>

theorem onOpenCategory_invalid_key_counterexample:
  "App \<lparr>showSplash = False, screen = ''home''\<rparr> = AtHome \<and>
   ''unicorns'' \<notin> set (map key example_catalog) \<and>
   App (onOpenCategory ''unicorns'' \<lparr>showSplash = False, screen = ''home''\<rparr>) = AtCategory ''unicorns'' \<and>
   App (onOpenCategory ''unicorns'' \<lparr>showSplash = False, screen = ''home''\<rparr>) \<noteq> AtHome"
  by (simp add: App_def onOpenCategory_def example_catalog_def example_numbers_def
      example_animals_def)

section \<open>Properties of the speech controller\<close>

lemma speak_isSpeaking: "isSpeaking (state_of (speak api s spoken)) = isSpeaking s"
  by (simp add: speak_def speak_try_def split: option.splits completion.splits)

lemma speak_try_frame:
  "isSpeaking (state_of (speak_try api s spoken)) = isSpeaking s \<and>
   preferredVoiceRef (state_of (speak_try api s spoken)) = preferredVoiceRef s \<and>
   onvoiceschanged (state_of (speak_try api s spoken)) = onvoiceschanged s \<and>
   interval (state_of (speak_try api s spoken)) = interval s"
  by (simp add: speak_try_def split: option.splits completion.splits)

lemma speak_catches: "speak api s spoken = Returns (state_of (speak_try api s spoken))"
  by (simp add: speak_def split: completion.splits)

lemma speak_no_engine: "synthRef s = None \<Longrightarrow> speak api s spoken = Returns s"
  by (simp add: speak_def speak_try_def)

lemma speak_cancel_then_submit:
  "synthRef s = Some e \<Longrightarrow> cancel api e = Returns e1 \<Longrightarrow> SpeechSynthesisUtterance api \<Longrightarrow>
     synthRef (state_of (speak api s spoken)) =
       Some (state_of (submit api (new_utterance spoken (preferredVoiceRef s)) e1))"
  by (simp add: speak_def speak_try_def split: completion.splits)

lemma tick_clears:
  "interval s \<noteq> None \<Longrightarrow> synthRef s = Some e \<Longrightarrow> \<not> speaking api e \<Longrightarrow>
     \<not> isSpeaking (step api Tick s)"
  by (simp add: poll_def)

lemma step_never_raises:
  "ev \<noteq> UtteranceStart \<Longrightarrow> isSpeaking (step api ev s) \<Longrightarrow> isSpeaking s"
  by (cases ev)
    (auto simp: speak_isSpeaking poll_def chooseVoice_def unmount_def cleanup_def Let_def
      split: option.splits if_splits)

lemma effect_interval: "synthRef s = Some e \<Longrightarrow> interval (effect api s) = Some 200"
  by (simp add: effect_def Let_def)

lemma effect_no_engine: "synthRef s = None \<Longrightarrow> effect api s = s"
  by (simp add: effect_def)

lemma unmount_clears:
  "synthRef s \<noteq> None \<Longrightarrow> interval (unmount s) = None \<and> \<not> onvoiceschanged (unmount s)"
  by (auto simp: unmount_def cleanup_def Let_def)

lemma unmount_quiet: "quiet (unmount s)"
  by (auto simp: quiet_def unmount_def cleanup_def Let_def split: option.splits)

lemma quiet_step:
  "quiet s \<Longrightarrow> engine_event ev \<Longrightarrow>
     quiet (step api ev s) \<and> isSpeaking (step api ev s) = isSpeaking s \<and>
     preferredVoiceRef (step api ev s) = preferredVoiceRef s \<and>
     interval (step api ev s) = interval s \<and>
     onvoiceschanged (step api ev s) = onvoiceschanged s"
  by (cases ev) (auto simp: quiet_def poll_def split: option.splits)

lemma quiet_run:
  "quiet s \<Longrightarrow> \<forall>ev \<in> set evs. engine_event ev \<Longrightarrow>
     quiet (run api evs s) \<and> isSpeaking (run api evs s) = isSpeaking s \<and>
     preferredVoiceRef (run api evs s) = preferredVoiceRef s \<and>
     interval (run api evs s) = interval s \<and>
     onvoiceschanged (run api evs s) = onvoiceschanged s"
proof (induction evs arbitrary: s)
  case Nil
  then show ?case by (simp add: run_def)
next
  case (Cons ev evs)
  then have st: "quiet (step api ev s) \<and> isSpeaking (step api ev s) = isSpeaking s \<and>
     preferredVoiceRef (step api ev s) = preferredVoiceRef s \<and>
     interval (step api ev s) = interval s \<and>
     onvoiceschanged (step api ev s) = onvoiceschanged s"
    by (intro quiet_step) auto
  have "run api (ev # evs) s = run api evs (step api ev s)" by (simp add: run_def)
  moreover have "quiet (run api evs (step api ev s)) \<and>
     isSpeaking (run api evs (step api ev s)) = isSpeaking (step api ev s) \<and>
     preferredVoiceRef (run api evs (step api ev s)) = preferredVoiceRef (step api ev s) \<and>
     interval (run api evs (step api ev s)) = interval (step api ev s) \<and>
     onvoiceschanged (run api evs (step api ev s)) = onvoiceschanged (step api ev s)"
    using Cons.prems st by (intro Cons.IH) auto
  ultimately show ?case using st by simp
qed

text \<open>
  C4, at an input where the code departs from it. The engine lists a Welsh voice (locale
  \<open>cy-GB\<close>) before an English one (locale \<open>en-US\<close>), none of them named Google US English.
  The fallback pattern \<open>/en(-| )US|GB|AU/i\<close> matches \<open>cy-GB\<close> through its alternative \<open>GB\<close>,
  so the Welsh voice is chosen. With a French voice first and the Welsh voice second, the
  Welsh voice is chosen as well, where no voice has an English locale.
\<close>

theorem preferred_takes_welsh_voice:
  "preferred [voice_welsh, voice_english] = Some voice_welsh \<and>
   preferred [voice_french, voice_welsh] = Some voice_welsh \<and>
   lang voice_welsh = ''cy-GB'' \<and> lang voice_english = ''en-US''"
  by code_simp

text \<open>
  C5. \<open>speak\<close> returns normally for every text, every state of the hook and every engine:
  whatever the \<open>try\<close> block throws (the engine's \<open>cancel\<close> or \<open>speak\<close> throwing, the
  utterance constructor missing) is caught, and without an engine the call changes
  nothing. The call leaves \<open>isSpeaking\<close>, the preferred voice, the timer and the voices
  handler as they were; in particular \<open>isSpeaking\<close> that was false is false afterwards.
\<close>

theorem speak_never_throws:
  "(\<exists>s'. speak api s spoken = Returns s' \<and> isSpeaking s' = isSpeaking s \<and>
          preferredVoiceRef s' = preferredVoiceRef s \<and>
          onvoiceschanged s' = onvoiceschanged s \<and> interval s' = interval s) \<and>
   (synthRef s = None \<longrightarrow> speak api s spoken = Returns s) \<and>
   (speak_try api s spoken = Throws s1 \<longrightarrow> speak api s spoken = Returns s1) \<and>
   (\<not> isSpeaking s \<longrightarrow> \<not> isSpeaking (state_of (speak api s spoken)))"
proof -
  have "speak_try api s spoken = Throws s1 \<Longrightarrow> speak api s spoken = Returns s1"
    by (simp add: speak_def)
  then show ?thesis
    using speak_catches [of api s spoken] speak_try_frame [of api s spoken]
      speak_no_engine [of s api spoken]
    by auto
qed

theorem speak_never_throws_witness:
  "speak_try rejecting_engine (useSpeech_initial (Some silent)) ''cat'' =
     Throws (useSpeech_initial (Some silent)) \<and>
   speak rejecting_engine (useSpeech_initial (Some silent)) ''cat'' =
     Returns (useSpeech_initial (Some silent)) \<and>
   synthRef (useSpeech_initial None :: sim_engine hook) = None \<and>
   speak conforming_engine (useSpeech_initial None) ''cat'' = Returns (useSpeech_initial None) \<and>
   \<not> isSpeaking (useSpeech_initial (Some silent)) \<and>
   \<not> isSpeaking (state_of (speak rejecting_engine (useSpeech_initial (Some silent)) ''cat''))"
proof -
  have t: "speak_try rejecting_engine (useSpeech_initial (Some silent)) ''cat'' =
     Throws (useSpeech_initial (Some silent))"
    by (simp add: speak_try_def rejecting_engine_def conforming_engine_def useSpeech_initial_def
        silent_def)
  have n: "synthRef (useSpeech_initial None :: sim_engine hook) = None"
    by (simp add: useSpeech_initial_def)
  have f: "\<not> isSpeaking (useSpeech_initial (Some silent))"
    by (simp add: useSpeech_initial_def)
  show ?thesis
    using t n f
      speak_never_throws [where api = rejecting_engine and s = "useSpeech_initial (Some silent)"
        and spoken = "''cat''" and ?s1.0 = "useSpeech_initial (Some silent)"]
      speak_never_throws [where api = conforming_engine and s = "useSpeech_initial None"
        and spoken = "''cat''"]
    by blast
qed

text \<open>
  C1, as amended. \<open>speak(b)\<close> asks the engine to cancel and then hands the new utterance to
  the engine as the cancel request left it; an engine that honours the request holds the
  new utterance only. \<open>speak\<close> does no bookkeeping of its own: \<open>isSpeaking\<close> has the value
  after the call that it had before. The start event of an utterance makes it true; it
  becomes false later, when the end event of an utterance is delivered or when the poll
  finds the engine not speaking.
\<close>

theorem speak_cancels_then_submits:
  "isSpeaking (state_of (speak api s spoken)) = isSpeaking s \<and>
   (synthRef s = Some e \<and> cancel api e = Returns e1 \<and> SpeechSynthesisUtterance api \<longrightarrow>
      synthRef (state_of (speak api s spoken)) =
        Some (state_of (submit api (new_utterance spoken (preferredVoiceRef s)) e1))) \<and>
   isSpeaking (step api UtteranceStart s) \<and>
   \<not> isSpeaking (step api UtteranceEnd s) \<and>
   (interval s \<noteq> None \<and> synthRef s = Some e \<and> \<not> speaking api e \<longrightarrow>
      \<not> isSpeaking (step api Tick s))"
  using speak_isSpeaking [of api s spoken] speak_cancel_then_submit [of s e api e1 spoken]
    tick_clears [of s e api]
  by simp

theorem speak_cancels_then_submits_witness:
  "synthRef (run conforming_engine [Speak ''cat'', UtteranceStart]
       (effect conforming_engine (useSpeech_initial (Some silent)))) =
     Some (silent\<lparr>queue := [new_utterance ''cat'' None]\<rparr>) \<and>
   cancel conforming_engine (silent\<lparr>queue := [new_utterance ''cat'' None]\<rparr>) = Returns silent \<and>
   SpeechSynthesisUtterance conforming_engine \<and>
   synthRef (state_of (speak conforming_engine
       (run conforming_engine [Speak ''cat'', UtteranceStart]
          (effect conforming_engine (useSpeech_initial (Some silent)))) ''dog'')) =
     Some (silent\<lparr>queue := [new_utterance ''dog'' None]\<rparr>) \<and>
   interval (run conforming_engine [Speak ''cat'', UtteranceStart]
       (effect conforming_engine (useSpeech_initial (Some silent)))) \<noteq> None \<and>
   \<not> speaking conforming_engine (silent\<lparr>queue := [new_utterance ''cat'' None]\<rparr>) \<and>
   \<not> isSpeaking (step conforming_engine Tick
       (run conforming_engine [Speak ''cat'', UtteranceStart]
          (effect conforming_engine (useSpeech_initial (Some silent)))))"
proof -
  let ?s = "run conforming_engine [Speak ''cat'', UtteranceStart]
       (effect conforming_engine (useSpeech_initial (Some silent)))"
  let ?e = "silent\<lparr>queue := [new_utterance ''cat'' None]\<rparr>"
  have s: "synthRef ?s = Some ?e"
    by (simp add: run_def effect_def useSpeech_initial_def conforming_engine_def speak_def
        speak_try_def chooseVoice_def silent_def preferred_def)
  have c: "cancel conforming_engine ?e = Returns silent"
    by (simp add: conforming_engine_def silent_def)
  have k: "SpeechSynthesisUtterance conforming_engine"
    by (simp add: conforming_engine_def)
  have p: "preferredVoiceRef ?s = None"
    by (simp add: run_def effect_def useSpeech_initial_def conforming_engine_def speak_def
        speak_try_def chooseVoice_def silent_def preferred_def)
  have q: "state_of (submit conforming_engine (new_utterance ''dog'' None) silent) =
      silent\<lparr>queue := [new_utterance ''dog'' None]\<rparr>"
    by (simp add: conforming_engine_def silent_def)
  have i: "interval ?s \<noteq> None"
    by (simp add: run_def effect_def useSpeech_initial_def conforming_engine_def speak_def
        speak_try_def chooseVoice_def silent_def preferred_def)
  have b: "\<not> speaking conforming_engine ?e"
    by (simp add: conforming_engine_def silent_def)
  from speak_cancels_then_submits
    [where api = conforming_engine
      and s = "run conforming_engine [Speak ''cat'', UtteranceStart]
                 (effect conforming_engine (useSpeech_initial (Some silent)))"
      and spoken = "''dog''" and e = "silent\<lparr>queue := [new_utterance ''cat'' None]\<rparr>"
      and ?e1.0 = silent]
    s c k i b
  have "synthRef (state_of (speak conforming_engine ?s ''dog'')) =
          Some (state_of (submit conforming_engine (new_utterance ''dog'' (preferredVoiceRef ?s)) silent))"
    and "\<not> isSpeaking (step conforming_engine Tick ?s)"
    by blast+
  then show ?thesis
    using s c k i b by (simp only: p q) blast
qed

text \<open>
  C1 as stated fails: after \<open>speak("cat")\<close>, the start event of that utterance and
  \<open>speak("dog")\<close>, the engine holds the utterance for \<open>dog\<close> only, no start event has been
  delivered for it, and \<open>isSpeaking\<close> is still true.
\<close>

theorem speak_keeps_isSpeaking_counterexample:
  "isSpeaking (run conforming_engine [Speak ''cat'', UtteranceStart, Speak ''dog'']
      (effect conforming_engine (useSpeech_initial (Some silent)))) \<and>
   map utterance_text (queue (the (synthRef
      (run conforming_engine [Speak ''cat'', UtteranceStart, Speak ''dog'']
         (effect conforming_engine (useSpeech_initial (Some silent))))))) = [''dog'']"
  by (simp add: run_def effect_def useSpeech_initial_def conforming_engine_def speak_def
      speak_try_def chooseVoice_def silent_def new_utterance_def preferred_def)

text \<open>
  C6. When the engine exists, mounting starts an interval timer of period 200 ms. Each
  time it fires with the engine reporting that it is not speaking, \<open>isSpeaking\<close> is false
  afterwards. The timer's callback never makes \<open>isSpeaking\<close> true, and neither does any
  other event except the start event of an utterance, which does.
\<close>

theorem poll_only_clears:
  "(synthRef s = Some e \<longrightarrow> interval (effect api s) = Some 200) \<and>
   (interval s \<noteq> None \<and> synthRef s = Some e \<and> \<not> speaking api e \<longrightarrow>
      \<not> isSpeaking (step api Tick s)) \<and>
   (isSpeaking (poll api s) \<longrightarrow> isSpeaking s) \<and>
   (ev \<noteq> UtteranceStart \<and> isSpeaking (step api ev s) \<longrightarrow> isSpeaking s) \<and>
   isSpeaking (step api UtteranceStart s)"
proof -
  have "isSpeaking (poll api s) \<Longrightarrow> isSpeaking s"
    by (auto simp: poll_def split: option.splits if_splits)
  then show ?thesis
    using effect_interval [of s e api] tick_clears [of s e api] step_never_raises [of ev api s]
    by auto
qed

theorem poll_only_clears_witness:
  "synthRef (useSpeech_initial (Some silent)) = Some silent \<and>
   interval (effect conforming_engine (useSpeech_initial (Some silent))) = Some 200 \<and>
   synthRef (step conforming_engine UtteranceStart
              (effect conforming_engine (useSpeech_initial (Some silent)))) = Some silent \<and>
   \<not> speaking conforming_engine silent \<and>
   isSpeaking (step conforming_engine UtteranceStart
              (effect conforming_engine (useSpeech_initial (Some silent)))) \<and>
   \<not> isSpeaking (step conforming_engine Tick
       (step conforming_engine UtteranceStart
          (effect conforming_engine (useSpeech_initial (Some silent)))))"
proof -
  let ?m = "effect conforming_engine (useSpeech_initial (Some silent))"
  let ?s = "step conforming_engine UtteranceStart ?m"
  have e: "synthRef (useSpeech_initial (Some silent)) = Some silent"
    by (simp add: useSpeech_initial_def)
  have s: "synthRef ?s = Some silent"
    by (simp add: effect_def useSpeech_initial_def chooseVoice_def)
  have b: "\<not> speaking conforming_engine silent"
    by (simp add: conforming_engine_def silent_def)
  have i: "interval ?s \<noteq> None"
    by (simp add: effect_def useSpeech_initial_def chooseVoice_def)
  show ?thesis
    using e s b i
      poll_only_clears [where s = "useSpeech_initial (Some silent)" and e = silent
        and api = conforming_engine]
      poll_only_clears [where s = "step conforming_engine UtteranceStart (effect conforming_engine (useSpeech_initial (Some silent)))"
        and e = silent and api = conforming_engine]
      poll_only_clears [where s = "effect conforming_engine (useSpeech_initial (Some silent))"
        and api = conforming_engine]
    by blast
qed

text \<open>
  C7. Unmounting a hook that has an engine clears the interval timer and sets the engine's
  \<open>onvoiceschanged\<close> to \<open>null\<close>; without an engine the effect had set up neither. After
  unmounting, whatever the engine and the timer do (the engine changing state, announcing
  new voices, a timer firing), \<open>isSpeaking\<close> and the preferred voice keep their values:
  the poll and the voices handler no longer run.
\<close>

theorem unmount_stops_poll_and_handler:
  "(synthRef s \<noteq> None \<longrightarrow> interval (unmount s) = None \<and> \<not> onvoiceschanged (unmount s)) \<and>
   (synthRef s = None \<longrightarrow> effect api s = s) \<and>
   ((\<forall>ev \<in> set evs. engine_event ev) \<longrightarrow>
      isSpeaking (run api evs (unmount s)) = isSpeaking (unmount s) \<and>
      preferredVoiceRef (run api evs (unmount s)) = preferredVoiceRef (unmount s) \<and>
      interval (run api evs (unmount s)) = interval (unmount s) \<and>
      onvoiceschanged (run api evs (unmount s)) = onvoiceschanged (unmount s))"
proof -
  have q: "quiet (unmount s)" by (rule unmount_quiet)
  show ?thesis
    using unmount_clears [of s] effect_no_engine [of s api] quiet_run [OF q, of evs api]
    by blast
qed

theorem unmount_stops_poll_and_handler_witness:
  "synthRef (step conforming_engine UtteranceStart
      (effect conforming_engine (useSpeech_initial (Some silent)))) \<noteq> None \<and>
   engine_event (EngineChange (silent\<lparr>voices := [voice_google]\<rparr>) :: sim_engine event) \<and>
   engine_event (VoicesChanged :: sim_engine event) \<and>
   engine_event (Tick :: sim_engine event) \<and>
   interval (unmount (step conforming_engine UtteranceStart
      (effect conforming_engine (useSpeech_initial (Some silent))))) = None \<and>
   isSpeaking (unmount (step conforming_engine UtteranceStart
      (effect conforming_engine (useSpeech_initial (Some silent))))) \<and>
   isSpeaking (run conforming_engine
      [EngineChange (silent\<lparr>voices := [voice_google]\<rparr>), VoicesChanged, Tick]
      (unmount (step conforming_engine UtteranceStart
         (effect conforming_engine (useSpeech_initial (Some silent)))))) \<and>
   preferredVoiceRef (run conforming_engine
      [EngineChange (silent\<lparr>voices := [voice_google]\<rparr>), VoicesChanged, Tick]
      (unmount (step conforming_engine UtteranceStart
         (effect conforming_engine (useSpeech_initial (Some silent)))))) = None"
proof -
  let ?s = "step conforming_engine UtteranceStart
      (effect conforming_engine (useSpeech_initial (Some silent)))"
  let ?evs = "[EngineChange (silent\<lparr>voices := [voice_google]\<rparr>), VoicesChanged, Tick]"
  have a: "synthRef ?s \<noteq> None"
    by (simp add: effect_def useSpeech_initial_def chooseVoice_def)
  have b: "\<forall>ev \<in> set ?evs. engine_event ev" by simp
  have z: "engine_event (EngineChange (silent\<lparr>voices := [voice_google]\<rparr>) :: sim_engine event)"
    "engine_event (VoicesChanged :: sim_engine event)" "engine_event (Tick :: sim_engine event)"
    by simp_all
  have c: "isSpeaking (unmount ?s)"
    by (simp add: unmount_def cleanup_def effect_def useSpeech_initial_def chooseVoice_def)
  have d: "preferredVoiceRef (unmount ?s) = None"
    by (simp add: unmount_def cleanup_def effect_def useSpeech_initial_def chooseVoice_def
        conforming_engine_def silent_def preferred_def)
  show ?thesis
    using a b c d z unmount_stops_poll_and_handler
        [where s = "step conforming_engine UtteranceStart (effect conforming_engine (useSpeech_initial (Some silent)))"
         and api = conforming_engine
         and evs = "[EngineChange (silent\<lparr>voices := [voice_google]\<rparr>), VoicesChanged, Tick]"]
    by (simp only:) blast
qed

section \<open>Properties of the Splash timer\<close>

lemma Splash_effect_result:
  "timeouts p = [] \<Longrightarrow>
     Splash_effect p =
       p\<lparr>timeouts := [(next_timer p, now p + 2200)], next_timer := Suc (next_timer p),
         splash_timer := Some (next_timer p)\<rparr>"
  by (simp add: Splash_effect_def setTimeout_def)

lemma advance_early:
  "timeouts p = [] \<Longrightarrow> d < 2200 \<Longrightarrow>
     advance d (Splash_effect p) =
       p\<lparr>now := now p + d, timeouts := [(next_timer p, now p + 2200)],
         next_timer := Suc (next_timer p), splash_timer := Some (next_timer p)\<rparr>"
  by (simp add: Splash_effect_result advance_def)

lemma advance_due:
  "timeouts p = [] \<Longrightarrow> showSplash (app_state p) \<Longrightarrow> 2200 \<le> d \<Longrightarrow>
     advance d (Splash_effect p) =
       p\<lparr>app_state := onDone (app_state p), now := now p + d, timeouts := [],
         next_timer := Suc (next_timer p), splash_timer := None\<rparr>"
  by (simp add: Splash_effect_result advance_def fire_def render_def clearTimeout_def
      Splash_cleanup_def App_def onDone_def)

lemma advance_idle: "timeouts p = [] \<Longrightarrow> advance d p = p\<lparr>now := now p + d\<rparr>"
  by (simp add: advance_def)

lemma user_in_splash: "App (app_state q) = AtSplash \<Longrightarrow> user CATEGORIES ev q = q"
  by (simp add: user_def)

lemma cleanup_early:
  "timeouts p = [] \<Longrightarrow> d < 2200 \<Longrightarrow>
     Splash_cleanup (advance d (Splash_effect p)) =
       p\<lparr>now := now p + d, next_timer := Suc (next_timer p), splash_timer := None\<rparr>"
  by (simp add: advance_early Splash_cleanup_def clearTimeout_def)

lemma remount_early:
  assumes "timeouts p = []" "d < 2200"
  shows "timeouts (Splash_effect (Splash_cleanup (advance d (Splash_effect p)))) =
       [(Suc (next_timer p), now p + d + 2200)]"
proof -
  have c: "Splash_cleanup (advance d (Splash_effect p)) =
       p\<lparr>now := now p + d, next_timer := Suc (next_timer p), splash_timer := None\<rparr>"
    using assms by (rule cleanup_early)
  show ?thesis
    unfolding c using assms(1) by (simp add: Splash_effect_def setTimeout_def)
qed

text \<open>
  C8. Start from the initial state of \<open>App\<close> with no timeout pending, and let the effect of
  \<open>Splash\<close> run. The navigation state is \<open>Splash\<close> and stays so while less than 2200 ms have
  passed. Once 2200 ms have passed it is \<open>Home\<close>, no timeout is pending any more, and further
  time changes nothing: the transition has fired once. In the \<open>Splash\<close> state no user input
  has an effect, so none cancels the timeout. If \<open>Splash\<close> is torn down before 2200 ms have
  passed, the timeout is cleared and the state of \<open>App\<close> is still the initial one however
  much time passes afterwards; when the effect runs again after such a teardown, the one
  pending timeout is the new one, due 2200 ms later.
\<close>

theorem Splash_timeout:
  "app_state p = App_initial \<and> timeouts p = [] \<longrightarrow>
     App (app_state (Splash_effect p)) = AtSplash \<and>
     (d < 2200 \<longrightarrow> App (app_state (advance d (Splash_effect p))) = AtSplash) \<and>
     (2200 \<le> d \<longrightarrow>
        App (app_state (advance d (Splash_effect p))) = AtHome \<and>
        timeouts (advance d (Splash_effect p)) = [] \<and>
        app_state (advance d' (advance d (Splash_effect p))) =
          app_state (advance d (Splash_effect p))) \<and>
     (App (app_state q) = AtSplash \<longrightarrow> user CATEGORIES ev q = q) \<and>
     (d < 2200 \<longrightarrow>
        timeouts (Splash_cleanup (advance d (Splash_effect p))) = [] \<and>
        app_state (advance d' (Splash_cleanup (advance d (Splash_effect p)))) = App_initial \<and>
        map snd (timeouts (Splash_effect (Splash_cleanup (advance d (Splash_effect p))))) =
          [now p + d + 2200])"
proof (intro impI, elim conjE)
  assume a: "app_state p = App_initial" and t: "timeouts p = []"
  have s: "showSplash (app_state p)" by (simp add: a App_initial_def)
  have 1: "App (app_state (Splash_effect p)) = AtSplash"
    by (simp add: Splash_effect_result [OF t] a App_def App_initial_def)
  have 2: "d < 2200 \<Longrightarrow> App (app_state (advance d (Splash_effect p))) = AtSplash"
    by (simp add: advance_early [OF t] a App_def App_initial_def)
  have 3: "2200 \<le> d \<Longrightarrow>
        App (app_state (advance d (Splash_effect p))) = AtHome \<and>
        timeouts (advance d (Splash_effect p)) = [] \<and>
        app_state (advance d' (advance d (Splash_effect p))) =
          app_state (advance d (Splash_effect p))"
    by (simp add: advance_due [OF t s] advance_idle a App_def App_initial_def onDone_def)
  have 4: "App (app_state q) = AtSplash \<Longrightarrow> user CATEGORIES ev q = q"
    by (rule user_in_splash)
  have 5: "d < 2200 \<Longrightarrow>
        timeouts (Splash_cleanup (advance d (Splash_effect p))) = [] \<and>
        app_state (advance d' (Splash_cleanup (advance d (Splash_effect p)))) = App_initial \<and>
        map snd (timeouts (Splash_effect (Splash_cleanup (advance d (Splash_effect p))))) =
          [now p + d + 2200]"
    using remount_early [OF t, of d] cleanup_early [OF t, of d]
    by (simp add: advance_idle t a)
  from 1 2 3 4 5 show "App (app_state (Splash_effect p)) = AtSplash \<and>
     (d < 2200 \<longrightarrow> App (app_state (advance d (Splash_effect p))) = AtSplash) \<and>
     (2200 \<le> d \<longrightarrow>
        App (app_state (advance d (Splash_effect p))) = AtHome \<and>
        timeouts (advance d (Splash_effect p)) = [] \<and>
        app_state (advance d' (advance d (Splash_effect p))) =
          app_state (advance d (Splash_effect p))) \<and>
     (App (app_state q) = AtSplash \<longrightarrow> user CATEGORIES ev q = q) \<and>
     (d < 2200 \<longrightarrow>
        timeouts (Splash_cleanup (advance d (Splash_effect p))) = [] \<and>
        app_state (advance d' (Splash_cleanup (advance d (Splash_effect p)))) = App_initial \<and>
        map snd (timeouts (Splash_effect (Splash_cleanup (advance d (Splash_effect p))))) =
          [now p + d + 2200])"
    by blast
qed

theorem Splash_timeout_witness:
  "app_state page_initial = App_initial \<and> timeouts page_initial = [] \<and>
   App (app_state (advance 2199 (Splash_effect page_initial))) = AtSplash \<and>
   App (app_state (advance 2200 (Splash_effect page_initial))) = AtHome \<and>
   timeouts (advance 2200 (Splash_effect page_initial)) = [] \<and>
   App (app_state (Splash_effect page_initial)) = AtSplash \<and>
   user example_catalog (SelectCategory ''numbers'') (Splash_effect page_initial) =
     Splash_effect page_initial \<and>
   app_state (advance 5000 (Splash_cleanup (advance 1000 (Splash_effect page_initial)))) =
     App_initial"
proof -
  have a: "app_state page_initial = App_initial" "timeouts page_initial = []"
    by (simp_all add: page_initial_def)
  have n: "(2199::nat) < 2200" "(2200::nat) \<le> 2200" "(1000::nat) < 2200" by simp_all
  show ?thesis
    using a n
      Splash_timeout [where p = page_initial and d = 2199]
      Splash_timeout [where p = page_initial and d = 2200]
      Splash_timeout [where p = page_initial and d = 1000 and d' = 5000
        and q = "Splash_effect page_initial" and CATEGORIES = example_catalog
        and ev = "SelectCategory ''numbers''"]
    by blast
qed

end
